theory Spec2Isabelle
  imports Complex_Main
begin

section \<open>Data model\<close>

text \<open>
  The store is the relational schema of the migration (orders, order items, cart, cart
  items, inventory, products, variants, addresses, preorders) as the route handlers see it
  through the ORM. Money columns are \<open>DECIMAL(10,2)\<close>; they are modelled as exact
  rationals, and the sums and products that the handlers form of them are exact. Counts
  are integers, row identifiers and clock readings are naturals. The columns
  \<open>created_at\<close> and \<open>updated_at\<close>, which the store maintains by itself, are left out.
\<close>

datatype order_status = PENDING | CONFIRMED | PROCESSING | SHIPPED | DELIVERED | CANCELLED

datatype order_type = REGULAR | PREORDER

datatype payment_status = PAY_PENDING | PAY_COMPLETED | PAY_FAILED | PAY_REFUNDED | PAY_PARTIAL

datatype preorder_status =
  PRE_PENDING | PRE_CONFIRMED | PRE_READY | PRE_SHIPPED | PRE_DELIVERED | PRE_CANCELLED | PRE_EXPIRED

text \<open>
  The responses other than success. Each constructor stands for one \<open>return
  res.status(...).json(...)\<close> of the handlers:
  \<^item> \<open>ValidationError\<close>: 400 with the validator's error array;
  \<^item> \<open>EmptyCartError\<close>: 400 "Cart is empty";
  \<^item> \<open>InsufficientStockError p\<close>: 400 "Insufficient stock for ..." for the line on product \<open>p\<close>;
  \<^item> \<open>OrderNotFoundError\<close>, \<open>PreorderNotFoundError\<close>: 404;
  \<^item> \<open>InvalidStateTransitionError\<close>: 400 "Order cannot be cancelled" and
    400 "Invalid status transition";
  \<^item> \<open>PreorderNotAllowedError\<close>: 404 "Product not found or preorder not allowed";
  \<^item> \<open>VariantNotFoundError\<close>: 404; \<open>PreorderWindowClosedError\<close>: 400;
  \<^item> \<open>PreorderLimitExceededError a\<close>: 400 with \<open>available = a\<close>;
  \<^item> \<open>DuplicatePreorderError i\<close>: 400 with the id of the existing preorder;
  \<^item> \<open>AddressNotFoundError\<close>: 404;
  \<^item> \<open>InternalError\<close>: the 500 of the \<open>catch\<close> block, after an exception
    (a property read on \<open>null\<close>, an update of a row that is not there).
\<close>

datatype error =
    ValidationError
  | EmptyCartError
  | InsufficientStockError nat
  | OrderNotFoundError
  | PreorderNotFoundError
  | InvalidStateTransitionError
  | PreorderNotAllowedError
  | VariantNotFoundError
  | PreorderWindowClosedError
  | PreorderLimitExceededError int
  | DuplicatePreorderError nat
  | AddressNotFoundError
  | InternalError

record inventory =
  inv_quantity :: int
  inv_reservedQuantity :: int
  inv_lowStockThreshold :: int

record cart_item =
  ci_productId :: nat
  ci_productVariantId :: "nat option"
  ci_quantity :: int
  ci_price :: rat
  ci_isPreorder :: bool

record cart =
  cart_id :: nat
  cart_items :: "cart_item list"

record order_item =
  oi_productId :: nat
  oi_productVariantId :: "nat option"
  oi_quantity :: int
  oi_price :: rat
  oi_total :: rat
  oi_isPreorder :: bool

record order =
  o_id :: nat
  o_userId :: nat
  o_orderNumber :: string
  o_status :: order_status
  o_paymentStatus :: payment_status
  o_totalAmount :: rat
  o_shippingAddressId :: int
  o_billingAddressId :: int
  o_paymentMethod :: string
  o_orderType :: order_type
  o_items :: "order_item list"

text \<open>
  Modelled from the spec: the counter \<open>totalPreorders\<close> of a product (the running
  preorder-quantity counter of the specification, 4.3) and the columns \<open>updatedBy\<close>,
  \<open>trackingNumber\<close>, \<open>adminNotes\<close>, \<open>shippedAt\<close>, \<open>deliveredAt\<close> and
  \<open>cancelledAt\<close> of a preorder. The handlers write them; the migration among the
  sources does not declare them.
\<close>

record product =
  p_name :: string
  p_basePrice :: rat
  p_isActive :: bool
  p_allowPreorder :: bool
  p_preorderPrice :: "rat option"
  p_preorderLimit :: "int option"
  p_expectedStockDate :: "nat option"
  p_totalPreorders :: int

record variant =
  v_productId :: nat
  v_isActive :: bool

record preorder =
  pre_id :: nat
  pre_userId :: nat
  pre_productId :: nat
  pre_productVariantId :: "nat option"
  pre_quantity :: int
  pre_price :: rat
  pre_shippingAddressId :: "nat option"
  pre_expectedDate :: "nat option"
  pre_depositPaid :: rat
  pre_remainingAmount :: rat
  pre_status :: preorder_status
  pre_updatedBy :: "nat option"
  pre_trackingNumber :: "string option"
  pre_adminNotes :: "string option"
  pre_shippedAt :: "nat option"
  pre_deliveredAt :: "nat option"
  pre_cancelledAt :: "nat option"

text \<open>
  Modelled from the spec: the table of status history records (specification 4.5:
  from-status, to-status, actor, timestamp, note), which the handler fills through
  \<open>prisma.preorderStatusHistory.create\<close> and which the migration among the sources does
  not declare. Its columns are the fields that the handler sets.
\<close>

record preorder_status_history =
  h_preorderId :: nat
  h_fromStatus :: preorder_status
  h_toStatus :: preorder_status
  h_changedBy :: nat
  h_notes :: string
  h_timestamp :: nat

text \<open>
  The store. Tables that are read through a unique key are maps from that key: carts by
  \<open>userId\<close>, inventory rows by \<open>productVariantId\<close>, products, variants and
  addresses (with their owner) by \<open>id\<close>. Tables that grow by \<open>create\<close> and
  are searched or summed are lists of rows in insertion order. Order items are nested in
  their order and cart items in their cart, as \<open>include: { items }\<close> presents them.
\<close>

record db =
  db_carts :: "nat \<rightharpoonup> cart"
  db_inventory :: "nat \<rightharpoonup> inventory"
  db_orders :: "order list"
  db_products :: "nat \<rightharpoonup> product"
  db_variants :: "nat \<rightharpoonup> variant"
  db_addresses :: "nat \<rightharpoonup> nat"
  db_preorders :: "preorder list"
  db_preorderStatusHistory :: "preorder_status_history list"

text \<open>
  The id a \<open>SERIAL\<close> primary key gives a new row: one that no row of the table has.
\<close>

definition next_id :: "nat list \<Rightarrow> nat" where
  "next_id ids = Suc (foldr max ids 0)"

section \<open>Order placement (routes/orders.js, POST /)\<close>

record order_request =
  or_shippingAddressId :: int
  or_billingAddressId :: "int option"
  or_paymentMethod :: string

text \<open>
  \<open>for (const item of regularItems) if (item.productVariant &&
  item.productVariant.inventory.quantity < item.quantity) return 400\<close>.
  The relation \<open>productVariant\<close> of a line is there exactly when its
  \<open>productVariantId\<close> is set (a foreign key); reading \<open>.quantity\<close> of a variant
  with no inventory row throws, which the handler turns into a 500. The result is the
  first response the loop sends, or \<open>None\<close> when it runs to its end.
\<close>

fun verify_stock :: "(nat \<rightharpoonup> inventory) \<Rightarrow> cart_item list \<Rightarrow> error option" where
  "verify_stock stock [] = None"
| "verify_stock stock (item # rest) =
     (case ci_productVariantId item of
        None \<Rightarrow> verify_stock stock rest
      | Some v \<Rightarrow>
          (case stock v of
             None \<Rightarrow> Some InternalError
           | Some row \<Rightarrow>
               if inv_quantity row < ci_quantity item
               then Some (InsufficientStockError (ci_productId item))
               else verify_stock stock rest))"

text \<open>
  \<open>tx.inventory.update({ where: { productVariantId }, data: { quantity: ... } })\<close>:
  the row of the variant is rewritten; with no such row the ORM throws (\<open>None\<close>).
\<close>

definition inventory_update ::
  "nat \<Rightarrow> (inventory \<Rightarrow> inventory) \<Rightarrow> (nat \<rightharpoonup> inventory) \<Rightarrow> (nat \<rightharpoonup> inventory) option" where
  "inventory_update v f stock =
     (case stock v of None \<Rightarrow> None | Some row \<Rightarrow> Some (stock(v \<mapsto> f row)))"

text \<open>The loop of the transaction: \<open>quantity: { decrement: item.quantity }\<close> per regular line with a variant.\<close>

fun decrement_stock :: "(nat \<rightharpoonup> inventory) \<Rightarrow> cart_item list \<Rightarrow> (nat \<rightharpoonup> inventory) option" where
  "decrement_stock stock [] = Some stock"
| "decrement_stock stock (item # rest) =
     (case ci_productVariantId item of
        None \<Rightarrow> decrement_stock stock rest
      | Some v \<Rightarrow>
          (case inventory_update v (\<lambda>row. row\<lparr>inv_quantity := inv_quantity row - ci_quantity item\<rparr>) stock of
             None \<Rightarrow> None
           | Some stock' \<Rightarrow> decrement_stock stock' rest))"

definition order_item_of :: "cart_item \<Rightarrow> order_item" where
  "order_item_of item =
     \<lparr> oi_productId = ci_productId item,
       oi_productVariantId = ci_productVariantId item,
       oi_quantity = ci_quantity item,
       oi_price = ci_price item,
       oi_total = ci_price item * of_int (ci_quantity item),
       oi_isPreorder = ci_isPreorder item \<rparr>"

text \<open>
  \<open>billingAddressId ? parseInt(billingAddressId) : parseInt(shippingAddressId)\<close>:
  an absent billing address, and the falsy \<open>0\<close>, fall back to the shipping address.
\<close>

definition billing_address :: "order_request \<Rightarrow> int" where
  "billing_address req =
     (case or_billingAddressId req of
        None \<Rightarrow> or_shippingAddressId req
      | Some b \<Rightarrow> if b = 0 then or_shippingAddressId req else b)"

text \<open>
  The handler, for the authenticated user \<open>userId\<close>; \<open>orderNumber\<close> is what
  \<open>generateOrderNumber()\<close> returned (a clock reading and a random suffix). The result
  is the store after the request and the response. Every early return leaves the store as
  it was, and so does a transaction that throws, since it is rolled back. The created
  order takes the column defaults \<open>PENDING\<close> for status and payment status.
\<close>

definition create_order :: "db \<Rightarrow> nat \<Rightarrow> order_request \<Rightarrow> string \<Rightarrow> db \<times> (error + order)" where
  "create_order s userId req orderNumber =
     (if or_paymentMethod req = [] then (s, Inl ValidationError)
      else
        (case db_carts s userId of
           None \<Rightarrow> (s, Inl EmptyCartError)
         | Some cart \<Rightarrow>
             if length (cart_items cart) = 0 then (s, Inl EmptyCartError)
             else
               (let regularItems = filter (\<lambda>item. \<not> ci_isPreorder item) (cart_items cart);
                    preorderItems = filter (\<lambda>item. ci_isPreorder item) (cart_items cart)
                in
                  (case verify_stock (db_inventory s) regularItems of
                     Some e \<Rightarrow> (s, Inl e)
                   | None \<Rightarrow>
                       (let totalAmount =
                              foldl (\<lambda>acc item. acc + (ci_price item * of_int (ci_quantity item))) 0
                                (cart_items cart);
                            orderType = (if length preorderItems > 0 then PREORDER else REGULAR);
                            newOrder =
                              \<lparr> o_id = next_id (map o_id (db_orders s)),
                                o_userId = userId,
                                o_orderNumber = orderNumber,
                                o_status = PENDING,
                                o_paymentStatus = PAY_PENDING,
                                o_totalAmount = totalAmount,
                                o_shippingAddressId = or_shippingAddressId req,
                                o_billingAddressId = billing_address req,
                                o_paymentMethod = or_paymentMethod req,
                                o_orderType = orderType,
                                o_items = map order_item_of (cart_items cart) \<rparr>
                        in
                          (case decrement_stock (db_inventory s) regularItems of
                             None \<Rightarrow> (s, Inl InternalError)
                           | Some stock' \<Rightarrow>
                               (s\<lparr> db_orders := db_orders s @ [newOrder],
                                   db_inventory := stock',
                                   db_carts := (db_carts s)(userId \<mapsto> cart\<lparr>cart_items := []\<rparr>) \<rparr>,
                                Inr newOrder)))))))"

section \<open>Order cancellation (routes/orders.js, PUT /:id/cancel)\<close>

text \<open>\<open>tx.order.update({ where: { id }, data })\<close> on the table of orders.\<close>

definition order_update :: "nat \<Rightarrow> (order \<Rightarrow> order) \<Rightarrow> order list \<Rightarrow> order list" where
  "order_update i f orders = map (\<lambda>ord. if o_id ord = i then f ord else ord) orders"

text \<open>
  The loop of the transaction: \<open>quantity: { increment: item.quantity }\<close> for each
  order item with \<open>!item.isPreorder && item.productVariant\<close>.
\<close>

fun restore_stock :: "(nat \<rightharpoonup> inventory) \<Rightarrow> order_item list \<Rightarrow> (nat \<rightharpoonup> inventory) option" where
  "restore_stock stock [] = Some stock"
| "restore_stock stock (item # rest) =
     (case oi_productVariantId item of
        None \<Rightarrow> restore_stock stock rest
      | Some v \<Rightarrow>
          if oi_isPreorder item then restore_stock stock rest
          else
            (case inventory_update v (\<lambda>row. row\<lparr>inv_quantity := inv_quantity row + oi_quantity item\<rparr>) stock of
               None \<Rightarrow> None
             | Some stock' \<Rightarrow> restore_stock stock' rest))"

text \<open>
  The handler, for the authenticated user \<open>userId\<close> and the order id \<open>i\<close> of the
  path. \<open>findFirst\<close> looks for the order among those of the caller; the transaction
  sets the status and restores the stock, and is rolled back when an update throws.
\<close>

definition cancel_order :: "db \<Rightarrow> nat \<Rightarrow> nat \<Rightarrow> db \<times> (error + unit)" where
  "cancel_order s userId i =
     (case find (\<lambda>ord. o_id ord = i \<and> o_userId ord = userId) (db_orders s) of
        None \<Rightarrow> (s, Inl OrderNotFoundError)
      | Some ord \<Rightarrow>
          if o_status ord \<notin> set [PENDING, CONFIRMED]
          then (s, Inl InvalidStateTransitionError)
          else
            (case restore_stock (db_inventory s) (o_items ord) of
               None \<Rightarrow> (s, Inl InternalError)
             | Some stock' \<Rightarrow>
                 (s\<lparr> db_orders := order_update i (\<lambda>ord'. ord'\<lparr>o_status := CANCELLED\<rparr>) (db_orders s),
                     db_inventory := stock' \<rparr>,
                  Inr ())))"

section \<open>Order status update by an administrator (routes/orders.js, PUT /:id/status)\<close>

text \<open>
  The validator admits the six names of \<^typ>\<open>order_status\<close> and nothing else, which
  is the type of the argument. \<open>prisma.order.update\<close> throws when no order has the id;
  the handler answers 500 then.
\<close>

definition update_order_status :: "db \<Rightarrow> nat \<Rightarrow> order_status \<Rightarrow> db \<times> (error + order)" where
  "update_order_status s i status =
     (case find (\<lambda>ord. o_id ord = i) (db_orders s) of
        None \<Rightarrow> (s, Inl InternalError)
      | Some ord \<Rightarrow>
          (s\<lparr> db_orders := order_update i (\<lambda>ord'. ord'\<lparr>o_status := status\<rparr>) (db_orders s) \<rparr>,
           Inr (ord\<lparr>o_status := status\<rparr>)))"

section \<open>Preorder placement (routes/admin.js, POST /)\<close>

record preorder_request =
  pr_productId :: nat
  pr_productVariantId :: "nat option"
  pr_quantity :: int
  pr_shippingAddressId :: "nat option"
  pr_depositAmount :: "rat option"

record preorder_summary =
  sum_totalAmount :: rat
  sum_depositPaid :: rat
  sum_remainingAmount :: rat
  sum_expectedDelivery :: "nat option"

text \<open>
  The handler tests its optional ids by truthiness (\<open>productVariantId ? ... : null\<close>,
  \<open>if (shippingAddressId)\<close>): an id that is absent, or is \<open>0\<close>, counts as not given.
\<close>

definition given_id :: "nat option \<Rightarrow> nat option" where
  "given_id x = (case x of None \<Rightarrow> None | Some n \<Rightarrow> if n = 0 then None else Some n)"

text \<open>
  \<open>prisma.preorder.aggregate({ where: { productId, status: { in: ['PENDING',
  'CONFIRMED'] } }, _sum: { quantity: true } })\<close> followed by \<open>|| 0\<close>: the sum of the
  quantities of the product's active preorders, \<open>0\<close> when there is none.
\<close>

definition currentPreorderQuantity :: "preorder list \<Rightarrow> nat \<Rightarrow> int" where
  "currentPreorderQuantity preorders productId =
     sum_list (map pre_quantity
       (filter (\<lambda>p. pre_productId p = productId \<and> pre_status p \<in> set [PRE_PENDING, PRE_CONFIRMED])
          preorders))"

text \<open>
  The price columns come back from the ORM as decimal objects, which are truthy whatever
  their value, so \<open>product.preorderPrice || product.basePrice\<close> selects on \<open>null\<close>
  alone.
\<close>

definition preorder_unit_price :: "product \<Rightarrow> rat" where
  "preorder_unit_price product =
     (case p_preorderPrice product of None \<Rightarrow> p_basePrice product | Some pp \<Rightarrow> pp)"

text \<open>
  \<open>if (product.preorderLimit) { ... if (currentPreorderQuantity + quantity >
  product.preorderLimit) return 400 }\<close>: the check is skipped for a product without a
  limit and for the falsy limit \<open>0\<close>. The result is the \<open>available\<close> figure of the
  rejection, or \<open>None\<close> when the request passes.
\<close>

definition preorder_limit_check :: "int option \<Rightarrow> int \<Rightarrow> int \<Rightarrow> int option" where
  "preorder_limit_check preorderLimit current quantity =
     (case preorderLimit of
        None \<Rightarrow> None
      | Some limit \<Rightarrow>
          if limit = 0 then None
          else if current + quantity > limit then Some (limit - current)
          else None)"

text \<open>
  \<open>product.variants.find(v => v.id === parseInt(productVariantId))\<close> over the
  variants of the product that are active and have the requested id.
\<close>

definition find_variant :: "(nat \<rightharpoonup> variant) \<Rightarrow> nat \<Rightarrow> nat \<Rightarrow> variant option" where
  "find_variant variants productId v =
     (case variants v of
        None \<Rightarrow> None
      | Some var \<Rightarrow> if v_productId var = productId \<and> v_isActive var then Some var else None)"

text \<open>
  The handler, for the authenticated user \<open>userId\<close> at clock reading \<open>now\<close>.
  The validators ask for \<open>quantity \<ge> 1\<close> and, when a deposit is given, for
  \<open>depositAmount \<ge> 0\<close>; the deposit defaults to \<open>0\<close>. The checks follow in the
  order of the source. The transaction creates the preorder and increments
  \<open>totalPreorders\<close> of the product; the \<open>metadata\<close> blob (product name, category,
  client address) is left out of the row.
\<close>

definition create_preorder ::
  "db \<Rightarrow> nat \<Rightarrow> nat \<Rightarrow> preorder_request \<Rightarrow> db \<times> (error + preorder \<times> preorder_summary)" where
  "create_preorder s userId now req =
     (if pr_quantity req < 1 \<or> (case pr_depositAmount req of None \<Rightarrow> False | Some d \<Rightarrow> d < 0)
      then (s, Inl ValidationError)
      else
        (let productId = pr_productId req;
             productVariantId = given_id (pr_productVariantId req);
             quantity = pr_quantity req;
             shippingAddressId = given_id (pr_shippingAddressId req);
             depositAmount = (case pr_depositAmount req of None \<Rightarrow> 0 | Some d \<Rightarrow> d)
         in
           (case db_products s productId of
              None \<Rightarrow> (s, Inl PreorderNotAllowedError)
            | Some product \<Rightarrow>
                if \<not> (p_isActive product \<and> p_allowPreorder product)
                then (s, Inl PreorderNotAllowedError)
                else if (case productVariantId of
                           None \<Rightarrow> False
                         | Some v \<Rightarrow> find_variant (db_variants s) productId v = None)
                then (s, Inl VariantNotFoundError)
                else if (case p_expectedStockDate product of None \<Rightarrow> False | Some d \<Rightarrow> now > d)
                then (s, Inl PreorderWindowClosedError)
                else
                  (case preorder_limit_check (p_preorderLimit product)
                          (currentPreorderQuantity (db_preorders s) productId) quantity of
                     Some available \<Rightarrow> (s, Inl (PreorderLimitExceededError available))
                   | None \<Rightarrow>
                       (case find (\<lambda>p. pre_userId p = userId \<and> pre_productId p = productId
                                      \<and> pre_productVariantId p = productVariantId
                                      \<and> pre_status p \<in> set [PRE_PENDING, PRE_CONFIRMED])
                              (db_preorders s) of
                          Some existingUserPreorder \<Rightarrow>
                            (s, Inl (DuplicatePreorderError (pre_id existingUserPreorder)))
                        | None \<Rightarrow>
                            if (case shippingAddressId of
                                  None \<Rightarrow> False
                                | Some a \<Rightarrow> db_addresses s a \<noteq> Some userId)
                            then (s, Inl AddressNotFoundError)
                            else
                              (let price = preorder_unit_price product;
                                   totalAmount = price * of_int quantity;
                                   deposit = min depositAmount totalAmount;
                                   remaining = totalAmount - deposit;
                                   newPreorder =
                                     \<lparr> pre_id = next_id (map pre_id (db_preorders s)),
                                       pre_userId = userId,
                                       pre_productId = productId,
                                       pre_productVariantId = productVariantId,
                                       pre_quantity = quantity,
                                       pre_price = price,
                                       pre_shippingAddressId = shippingAddressId,
                                       pre_expectedDate = p_expectedStockDate product,
                                       pre_depositPaid = deposit,
                                       pre_remainingAmount = remaining,
                                       pre_status = (if deposit > 0 then PRE_CONFIRMED else PRE_PENDING),
                                       pre_updatedBy = None,
                                       pre_trackingNumber = None,
                                       pre_adminNotes = None,
                                       pre_shippedAt = None,
                                       pre_deliveredAt = None,
                                       pre_cancelledAt = None \<rparr>
                               in
                                 (s\<lparr> db_preorders := db_preorders s @ [newPreorder],
                                     db_products := (db_products s)(productId \<mapsto>
                                       product\<lparr>p_totalPreorders := p_totalPreorders product + quantity\<rparr>) \<rparr>,
                                  Inr (newPreorder,
                                       \<lparr> sum_totalAmount = totalAmount,
                                         sum_depositPaid = deposit,
                                         sum_remainingAmount = remaining,
                                         sum_expectedDelivery = p_expectedStockDate product \<rparr>))))))))"

section \<open>Preorder status update by an administrator (routes/admin.js, PUT /:id/status)\<close>

record status_request =
  sr_status :: preorder_status
  sr_trackingNumber :: "string option"
  sr_notes :: "string option"

record status_change =
  sc_from :: preorder_status
  sc_to :: preorder_status
  sc_updatedBy :: nat
  sc_timestamp :: nat

text \<open>The table \<open>validTransitions\<close> of the handler.\<close>

fun validTransitions :: "preorder_status \<Rightarrow> preorder_status list" where
  "validTransitions PRE_PENDING = [PRE_CONFIRMED, PRE_CANCELLED, PRE_EXPIRED]"
| "validTransitions PRE_CONFIRMED = [PRE_READY, PRE_CANCELLED]"
| "validTransitions PRE_READY = [PRE_SHIPPED, PRE_CANCELLED]"
| "validTransitions PRE_SHIPPED = [PRE_DELIVERED]"
| "validTransitions PRE_DELIVERED = []"
| "validTransitions PRE_CANCELLED = []"
| "validTransitions PRE_EXPIRED = []"

fun preorder_status_name :: "preorder_status \<Rightarrow> string" where
  "preorder_status_name PRE_PENDING = ''PENDING''"
| "preorder_status_name PRE_CONFIRMED = ''CONFIRMED''"
| "preorder_status_name PRE_READY = ''READY''"
| "preorder_status_name PRE_SHIPPED = ''SHIPPED''"
| "preorder_status_name PRE_DELIVERED = ''DELIVERED''"
| "preorder_status_name PRE_CANCELLED = ''CANCELLED''"
| "preorder_status_name PRE_EXPIRED = ''EXPIRED''"

text \<open>
  \<open>{ status, updatedBy, ...(trackingNumber && { trackingNumber }), ...(notes && {
  adminNotes: notes }), ...(status === 'SHIPPED' && { shippedAt }), ... }\<close>: a field
  that is absent or the empty string is not written.
\<close>

definition apply_status_update :: "nat \<Rightarrow> nat \<Rightarrow> status_request \<Rightarrow> preorder \<Rightarrow> preorder" where
  "apply_status_update actor now req p =
     p\<lparr> pre_status := sr_status req,
        pre_updatedBy := Some actor,
        pre_trackingNumber :=
          (case sr_trackingNumber req of
             None \<Rightarrow> pre_trackingNumber p
           | Some t \<Rightarrow> if t = [] then pre_trackingNumber p else Some t),
        pre_adminNotes :=
          (case sr_notes req of
             None \<Rightarrow> pre_adminNotes p
           | Some n \<Rightarrow> if n = [] then pre_adminNotes p else Some n),
        pre_shippedAt := (if sr_status req = PRE_SHIPPED then Some now else pre_shippedAt p),
        pre_deliveredAt := (if sr_status req = PRE_DELIVERED then Some now else pre_deliveredAt p),
        pre_cancelledAt := (if sr_status req = PRE_CANCELLED then Some now else pre_cancelledAt p) \<rparr>"

definition preorder_update :: "nat \<Rightarrow> (preorder \<Rightarrow> preorder) \<Rightarrow> preorder list \<Rightarrow> preorder list" where
  "preorder_update i f preorders = map (\<lambda>p. if pre_id p = i then f p else p) preorders"

text \<open>
  \<open>notes || `Status changed from ${from} to ${to}`\<close>, the note of the history record.
\<close>

definition history_notes :: "status_request \<Rightarrow> preorder_status \<Rightarrow> string" where
  "history_notes req fromStatus =
     (case sr_notes req of
        Some n \<Rightarrow>
          if n = []
          then ''Status changed from '' @ preorder_status_name fromStatus @ '' to ''
                 @ preorder_status_name (sr_status req)
          else n
      | None \<Rightarrow>
          ''Status changed from '' @ preorder_status_name fromStatus @ '' to ''
            @ preorder_status_name (sr_status req))"

text \<open>
  The handler, for the administrator \<open>actor\<close> at clock reading \<open>now\<close>. The
  validators admit the seven names of \<^typ>\<open>preorder_status\<close> (the type of
  \<open>sr_status\<close>), a tracking number of at least 3 characters and notes of at most 500.
\<close>

definition update_preorder_status ::
  "db \<Rightarrow> nat \<Rightarrow> nat \<Rightarrow> nat \<Rightarrow> status_request \<Rightarrow> db \<times> (error + preorder \<times> status_change)" where
  "update_preorder_status s actor now i req =
     (if (case sr_trackingNumber req of None \<Rightarrow> False | Some t \<Rightarrow> length t < 3)
         \<or> (case sr_notes req of None \<Rightarrow> False | Some n \<Rightarrow> length n > 500)
      then (s, Inl ValidationError)
      else
        (case find (\<lambda>p. pre_id p = i) (db_preorders s) of
           None \<Rightarrow> (s, Inl PreorderNotFoundError)
         | Some currentPreorder \<Rightarrow>
             if sr_status req \<notin> set (validTransitions (pre_status currentPreorder))
             then (s, Inl InvalidStateTransitionError)
             else
               (s\<lparr> db_preorders :=
                     preorder_update i (apply_status_update actor now req) (db_preorders s),
                   db_preorderStatusHistory := db_preorderStatusHistory s @
                     [\<lparr> h_preorderId = i,
                        h_fromStatus = pre_status currentPreorder,
                        h_toStatus = sr_status req,
                        h_changedBy = actor,
                        h_notes = history_notes req (pre_status currentPreorder),
                        h_timestamp = now \<rparr>] \<rparr>,
                Inr (apply_status_update actor now req currentPreorder,
                     \<lparr> sc_from = pre_status currentPreorder,
                       sc_to = sr_status req,
                       sc_updatedBy = actor,
                       sc_timestamp = now \<rparr>))))"

section \<open>Quantities and stores used in the statements\<close>

text \<open>The lines of a cart that are not preorders: \<open>regularItems\<close> of the handler.\<close>

definition regularItems :: "cart \<Rightarrow> cart_item list" where
  "regularItems cart = filter (\<lambda>item. \<not> ci_isPreorder item) (cart_items cart)"

text \<open>The quantity that the lines of a list ask of variant \<open>v\<close>, all lines together.\<close>

definition variant_quantity :: "nat \<Rightarrow> cart_item list \<Rightarrow> int" where
  "variant_quantity v items =
     sum_list (map ci_quantity (filter (\<lambda>item. ci_productVariantId item = Some v) items))"

text \<open>The variants that the regular lines of a cart reference, one entry per line.\<close>

definition regular_variant_lines :: "cart_item list \<Rightarrow> nat list" where
  "regular_variant_lines items =
     List.map_filter (\<lambda>item. if ci_isPreorder item then None else ci_productVariantId item) items"

text \<open>
  The quantity that the items of an order give back to variant \<open>v\<close> on cancellation:
  that of its items that are not preorders and reference \<open>v\<close>.
\<close>

definition restored_quantity :: "nat \<Rightarrow> order_item list \<Rightarrow> int" where
  "restored_quantity v items =
     sum_list (map oi_quantity
       (filter (\<lambda>item. \<not> oi_isPreorder item \<and> oi_productVariantId item = Some v) items))"

text \<open>The order that a successful placement creates, as the handler builds it.\<close>

definition placed_order :: "db \<Rightarrow> nat \<Rightarrow> order_request \<Rightarrow> string \<Rightarrow> cart \<Rightarrow> order" where
  "placed_order s userId req orderNumber cart =
     \<lparr> o_id = next_id (map o_id (db_orders s)),
       o_userId = userId,
       o_orderNumber = orderNumber,
       o_status = PENDING,
       o_paymentStatus = PAY_PENDING,
       o_totalAmount =
         foldl (\<lambda>acc item. acc + (ci_price item * of_int (ci_quantity item))) 0 (cart_items cart),
       o_shippingAddressId = or_shippingAddressId req,
       o_billingAddressId = billing_address req,
       o_paymentMethod = or_paymentMethod req,
       o_orderType =
         (if length (filter (\<lambda>item. ci_isPreorder item) (cart_items cart)) > 0
          then PREORDER else REGULAR),
       o_items = map order_item_of (cart_items cart) \<rparr>"

subsection \<open>Concrete stores\<close>

definition empty_db :: db where
  "empty_db =
     \<lparr> db_carts = Map.empty, db_inventory = Map.empty, db_orders = [], db_products = Map.empty,
       db_variants = Map.empty, db_addresses = Map.empty, db_preorders = [],
       db_preorderStatusHistory = [] \<rparr>"

definition stripe_request :: order_request where
  "stripe_request =
     \<lparr> or_shippingAddressId = 1, or_billingAddressId = None, or_paymentMethod = ''stripe'' \<rparr>"

definition regular_line :: "nat \<Rightarrow> int \<Rightarrow> rat \<Rightarrow> cart_item" where
  "regular_line v n price =
     \<lparr> ci_productId = 7, ci_productVariantId = Some v, ci_quantity = n, ci_price = price,
       ci_isPreorder = False \<rparr>"

definition stock_row :: "int \<Rightarrow> inventory" where
  "stock_row n = \<lparr> inv_quantity = n, inv_reservedQuantity = 0, inv_lowStockThreshold = 10 \<rparr>"





text \<open>
  Order 1 of user 1, in a given status: 2 units of variant 1, bought at 21.99; the variant
  has 3 in stock.
\<close>

definition sample_order :: "order_status \<Rightarrow> order" where
  "sample_order st =
     \<lparr> o_id = 1, o_userId = 1, o_orderNumber = ''ORD-1'', o_status = st,
       o_paymentStatus = PAY_PENDING, o_totalAmount = 4398 / 100, o_shippingAddressId = 1,
       o_billingAddressId = 1, o_paymentMethod = ''stripe'', o_orderType = REGULAR,
       o_items =
         [\<lparr> oi_productId = 7, oi_productVariantId = Some 1, oi_quantity = 2,
            oi_price = 2199 / 100, oi_total = 4398 / 100, oi_isPreorder = False \<rparr>] \<rparr>"

definition order_db :: "order_status \<Rightarrow> db" where
  "order_db st = empty_db \<lparr> db_orders := [sample_order st], db_inventory := [1 \<mapsto> stock_row 3] \<rparr>"

text \<open>
  User 1 holds 2 units of variant 1 as a regular line and 4 units of variant 2 as a
  preorder line; variant 1 has 5 in stock and variant 2 has none.
\<close>

definition preorder_line :: "nat \<Rightarrow> int \<Rightarrow> rat \<Rightarrow> cart_item" where
  "preorder_line v n price =
     \<lparr> ci_productId = 8, ci_productVariantId = Some v, ci_quantity = n, ci_price = price,
       ci_isPreorder = True \<rparr>"

definition mixed_cart :: cart where
  "mixed_cart =
     \<lparr> cart_id = 1, cart_items = [regular_line 1 2 (2199 / 100), preorder_line 2 4 (13999 / 100)] \<rparr>"

definition mixed_db :: db where
  "mixed_db = empty_db
     \<lparr> db_carts := [1 \<mapsto> mixed_cart], db_inventory := [1 \<mapsto> stock_row 5, 2 \<mapsto> stock_row 0] \<rparr>"

text \<open>The deposit that a preorder request asks to pay, \<open>0\<close> when it names none.\<close>

definition requested_deposit :: "preorder_request \<Rightarrow> rat" where
  "requested_deposit req = (case pr_depositAmount req of None \<Rightarrow> 0 | Some d \<Rightarrow> d)"

text \<open>
  The conditions under which a preorder request reaches the limit check: the validators
  pass, the product is there, active and open to preorders, the variant, when one is
  given, is an active variant of the product, and the expected stock date has not passed.
\<close>

definition reaches_limit_check :: "db \<Rightarrow> nat \<Rightarrow> preorder_request \<Rightarrow> product \<Rightarrow> bool" where
  "reaches_limit_check s now req product \<longleftrightarrow>
     1 \<le> pr_quantity req
     \<and> 0 \<le> requested_deposit req
     \<and> db_products s (pr_productId req) = Some product
     \<and> p_isActive product \<and> p_allowPreorder product
     \<and> (case given_id (pr_productVariantId req) of
           None \<Rightarrow> True
         | Some v \<Rightarrow> find_variant (db_variants s) (pr_productId req) v \<noteq> None)
     \<and> (case p_expectedStockDate product of None \<Rightarrow> True | Some d \<Rightarrow> now \<le> d)"

text \<open>The preorder row that a successful placement creates, as the handler builds it.\<close>

definition placed_preorder :: "db \<Rightarrow> nat \<Rightarrow> preorder_request \<Rightarrow> product \<Rightarrow> preorder" where
  "placed_preorder s userId req product =
     \<lparr> pre_id = next_id (map pre_id (db_preorders s)),
       pre_userId = userId,
       pre_productId = pr_productId req,
       pre_productVariantId = given_id (pr_productVariantId req),
       pre_quantity = pr_quantity req,
       pre_price = preorder_unit_price product,
       pre_shippingAddressId = given_id (pr_shippingAddressId req),
       pre_expectedDate = p_expectedStockDate product,
       pre_depositPaid =
         min (requested_deposit req) (preorder_unit_price product * of_int (pr_quantity req)),
       pre_remainingAmount =
         preorder_unit_price product * of_int (pr_quantity req)
           - min (requested_deposit req) (preorder_unit_price product * of_int (pr_quantity req)),
       pre_status =
         (if min (requested_deposit req) (preorder_unit_price product * of_int (pr_quantity req)) > 0
          then PRE_CONFIRMED else PRE_PENDING),
       pre_updatedBy = None,
       pre_trackingNumber = None,
       pre_adminNotes = None,
       pre_shippedAt = None,
       pre_deliveredAt = None,
       pre_cancelledAt = None \<rparr>"

definition placed_summary :: "preorder_request \<Rightarrow> product \<Rightarrow> preorder_summary" where
  "placed_summary req product =
     \<lparr> sum_totalAmount = preorder_unit_price product * of_int (pr_quantity req),
       sum_depositPaid =
         min (requested_deposit req) (preorder_unit_price product * of_int (pr_quantity req)),
       sum_remainingAmount =
         preorder_unit_price product * of_int (pr_quantity req)
           - min (requested_deposit req) (preorder_unit_price product * of_int (pr_quantity req)),
       sum_expectedDelivery = p_expectedStockDate product \<rparr>"

text \<open>
  Product 1 is active and open to preorders at 139.99 (base price 149.99) with a given
  limit; the store holds it, given preorders, and 5 units of its variant 1.
\<close>

definition preorder_product :: "int option \<Rightarrow> product" where
  "preorder_product limit =
     \<lparr> p_name = ''Mood Tote Bag'', p_basePrice = 14999 / 100, p_isActive = True,
       p_allowPreorder = True, p_preorderPrice = Some (13999 / 100), p_preorderLimit = limit,
       p_expectedStockDate = None, p_totalPreorders = 0 \<rparr>"

definition active_preorder :: "nat \<Rightarrow> nat \<Rightarrow> int \<Rightarrow> preorder_status \<Rightarrow> preorder" where
  "active_preorder i userId n st =
     \<lparr> pre_id = i, pre_userId = userId, pre_productId = 1, pre_productVariantId = None,
       pre_quantity = n, pre_price = 13999 / 100, pre_shippingAddressId = None,
       pre_expectedDate = None, pre_depositPaid = 0, pre_remainingAmount = 13999 / 100 * of_int n,
       pre_status = st, pre_updatedBy = None, pre_trackingNumber = None, pre_adminNotes = None,
       pre_shippedAt = None, pre_deliveredAt = None, pre_cancelledAt = None \<rparr>"

definition preorder_db :: "int option \<Rightarrow> preorder list \<Rightarrow> db" where
  "preorder_db limit preorders = empty_db
     \<lparr> db_products := [1 \<mapsto> preorder_product limit],
       db_variants := [1 \<mapsto> \<lparr> v_productId = 1, v_isActive = True \<rparr>],
       db_inventory := [1 \<mapsto> stock_row 5],
       db_preorders := preorders \<rparr>"

definition preorder_of :: "int \<Rightarrow> rat option \<Rightarrow> preorder_request" where
  "preorder_of n deposit =
     \<lparr> pr_productId = 1, pr_productVariantId = None, pr_quantity = n,
       pr_shippingAddressId = None, pr_depositAmount = deposit \<rparr>"


text \<open>A status request without tracking number and notes.\<close>

definition status_request_of :: "preorder_status \<Rightarrow> status_request" where
  "status_request_of st = \<lparr> sr_status = st, sr_trackingNumber = None, sr_notes = None \<rparr>"

text \<open>The transition table of the specification, as pairs of a status and a next status.\<close>

definition transition_table :: "(preorder_status \<times> preorder_status) list" where
  "transition_table =
     [(PRE_PENDING, PRE_CONFIRMED), (PRE_PENDING, PRE_CANCELLED), (PRE_PENDING, PRE_EXPIRED),
      (PRE_CONFIRMED, PRE_READY), (PRE_CONFIRMED, PRE_CANCELLED),
      (PRE_READY, PRE_SHIPPED), (PRE_READY, PRE_CANCELLED),
      (PRE_SHIPPED, PRE_DELIVERED)]"

section \<open>Properties of the stock loops\<close>

lemma next_id_fresh: "i \<in> set ids \<Longrightarrow> i < next_id ids"
  unfolding next_id_def by (induction ids) auto

lemma inventory_update_Some:
  "inventory_update v f stock = Some stock' \<longleftrightarrow>
   (\<exists>row. stock v = Some row \<and> stock' = stock(v \<mapsto> f row))"
  by (auto simp: inventory_update_def split: option.splits)

text \<open>What the decrement loop leaves in the row of a variant, when it runs to its end.\<close>

lemma decrement_stock_row:
  "decrement_stock stock items = Some stock' \<Longrightarrow>
   stock' v = map_option (\<lambda>row. row\<lparr>inv_quantity := inv_quantity row - variant_quantity v items\<rparr>) (stock v)"
proof (induction items arbitrary: stock)
  case Nil
  then show ?case by (simp add: variant_quantity_def option.map_ident)
next
  case (Cons item rest)
  show ?case
  proof (cases "ci_productVariantId item")
    case None
    with Cons show ?thesis by (simp add: variant_quantity_def)
  next
    case (Some w)
    with Cons.prems obtain row where row: "stock w = Some row"
      and rest: "decrement_stock (stock(w \<mapsto> row\<lparr>inv_quantity := inv_quantity row - ci_quantity item\<rparr>)) rest = Some stock'"
      by (auto simp: inventory_update_Some split: option.splits)
    from Cons.IH[OF rest] Some row show ?thesis
      by (cases "stock v") (auto simp: variant_quantity_def)
  qed
qed


lemma verify_stock_None:
  "verify_stock stock items = None \<longleftrightarrow>
   (\<forall>item \<in> set items. \<forall>v. ci_productVariantId item = Some v \<longrightarrow>
      (\<exists>row. stock v = Some row \<and> ci_quantity item \<le> inv_quantity row))"
  by (induction items) (auto split: option.splits)


lemma regular_variant_lines_mem:
  "v \<in> set (regular_variant_lines items) \<longleftrightarrow>
   (\<exists>item \<in> set items. \<not> ci_isPreorder item \<and> ci_productVariantId item = Some v)"
  unfolding regular_variant_lines_def
  by (induction items) (auto simp: map_filter_simps split: option.splits if_splits)

lemma variant_quantity_absent:
  "v \<notin> set (regular_variant_lines items) \<Longrightarrow>
   variant_quantity v (filter (\<lambda>item. \<not> ci_isPreorder item) items) = 0"
  unfolding regular_variant_lines_mem variant_quantity_def
  by (induction items) auto


section \<open>Order placement\<close>

text \<open>The successful runs of the handler, and what its failures leave behind.\<close>

lemma create_order_Inr:
  "create_order s userId req n = (s', Inr ord) \<longleftrightarrow>
   (\<exists>cart stock'. or_paymentMethod req \<noteq> [] \<and> db_carts s userId = Some cart \<and> cart_items cart \<noteq> []
      \<and> verify_stock (db_inventory s) (regularItems cart) = None
      \<and> decrement_stock (db_inventory s) (regularItems cart) = Some stock'
      \<and> ord = placed_order s userId req n cart
      \<and> s' = s\<lparr> db_orders := db_orders s @ [placed_order s userId req n cart],
                 db_inventory := stock',
                 db_carts := (db_carts s)(userId \<mapsto> cart\<lparr>cart_items := []\<rparr>) \<rparr>)"
  unfolding create_order_def placed_order_def regularItems_def Let_def
  by (auto split: option.splits)

lemma create_order_Inl:
  "create_order s userId req n = (s', Inl e) \<Longrightarrow> s' = s"
  unfolding create_order_def Let_def
  by (auto split: option.splits if_splits)











section \<open>Order cancellation\<close>

text \<open>What the restore loop leaves in the row of a variant, and when it throws.\<close>

lemma restore_stock_row:
  "restore_stock stock items = Some stock' \<Longrightarrow>
   stock' v = map_option (\<lambda>row. row\<lparr>inv_quantity := inv_quantity row + restored_quantity v items\<rparr>) (stock v)"
proof (induction items arbitrary: stock)
  case Nil
  then show ?case by (simp add: restored_quantity_def option.map_ident)
next
  case (Cons item rest)
  show ?case
  proof (cases "oi_productVariantId item")
    case None
    with Cons show ?thesis by (simp add: restored_quantity_def)
  next
    case (Some w)
    show ?thesis
    proof (cases "oi_isPreorder item")
      case True
      with Some Cons show ?thesis by (simp add: restored_quantity_def)
    next
      case False
      with Some Cons.prems obtain row where row: "stock w = Some row"
        and rest: "restore_stock (stock(w \<mapsto> row\<lparr>inv_quantity := inv_quantity row + oi_quantity item\<rparr>)) rest = Some stock'"
        by (auto simp: inventory_update_Some split: option.splits)
      from Cons.IH[OF rest] Some False row show ?thesis
        by (cases "stock v") (auto simp: restored_quantity_def)
    qed
  qed
qed

lemma restore_stock_succeeds:
  "(\<exists>stock'. restore_stock stock items = Some stock') \<longleftrightarrow>
   (\<forall>item \<in> set items. \<not> oi_isPreorder item \<longrightarrow>
      (\<forall>v. oi_productVariantId item = Some v \<longrightarrow> v \<in> dom stock))"
proof (induction items arbitrary: stock)
  case Nil
  then show ?case by simp
next
  case (Cons item rest)
  show ?case
  proof (cases "oi_productVariantId item")
    case None
    with Cons show ?thesis by simp
  next
    case (Some w)
    show ?thesis
    proof (cases "oi_isPreorder item")
      case True
      with Some Cons show ?thesis by simp
    next
      case regular: False
      show ?thesis
      proof (cases "stock w")
        case None
        with Some regular show ?thesis by (auto simp: inventory_update_def)
      next
        case row: (Some row)
        let ?stock1 = "stock(w \<mapsto> row\<lparr>inv_quantity := inv_quantity row + oi_quantity item\<rparr>)"
        have dom: "dom ?stock1 = dom stock" using row by auto
        have eq: "restore_stock stock (item # rest) = restore_stock ?stock1 rest"
          using Some regular row by (simp add: inventory_update_def)
        have ih: "(\<exists>stock'. restore_stock ?stock1 rest = Some stock') \<longleftrightarrow>
            (\<forall>item \<in> set rest. \<not> oi_isPreorder item \<longrightarrow>
               (\<forall>v. oi_productVariantId item = Some v \<longrightarrow> v \<in> dom stock))"
          using Cons.IH[of ?stock1] by (simp only: dom)
        have hd: "(\<forall>x \<in> set (item # rest). \<not> oi_isPreorder x \<longrightarrow>
               (\<forall>v. oi_productVariantId x = Some v \<longrightarrow> v \<in> dom stock)) \<longleftrightarrow>
            (\<forall>x \<in> set rest. \<not> oi_isPreorder x \<longrightarrow>
               (\<forall>v. oi_productVariantId x = Some v \<longrightarrow> v \<in> dom stock))"
          using Some row by auto
        show ?thesis by (simp only: eq ih hd)
      qed
    qed
  qed
qed

lemma find_map_preserved:
  "(\<And>y. P (f y) = P y) \<Longrightarrow> find P (map f xs) = map_option f (find P xs)"
  by (induction xs) auto

lemma find_append_last:
  "(\<And>x. x \<in> set xs \<Longrightarrow> \<not> P x) \<Longrightarrow> P y \<Longrightarrow> find P (xs @ [y]) = Some y"
  by (induction xs) auto

lemma cancel_order_Inr:
  "cancel_order s userId i = (s', Inr u) \<longleftrightarrow>
   (\<exists>ord stock'. find (\<lambda>ord. o_id ord = i \<and> o_userId ord = userId) (db_orders s) = Some ord
      \<and> (o_status ord = PENDING \<or> o_status ord = CONFIRMED)
      \<and> restore_stock (db_inventory s) (o_items ord) = Some stock'
      \<and> s' = s\<lparr> db_orders := order_update i (\<lambda>ord'. ord'\<lparr>o_status := CANCELLED\<rparr>) (db_orders s),
                 db_inventory := stock' \<rparr>)"
  unfolding cancel_order_def
  by (auto split: option.splits)



lemma order_update_others:
  "(\<And>ord. o_id (f ord) = o_id ord) \<Longrightarrow>
   filter (\<lambda>ord. o_id ord \<noteq> i) (order_update i f orders) = filter (\<lambda>ord. o_id ord \<noteq> i) orders"
  unfolding order_update_def by (induction orders) auto




section \<open>Placement followed by cancellation\<close>

lemma restored_quantity_order_items:
  "restored_quantity v (map order_item_of items) =
   variant_quantity v (filter (\<lambda>item. \<not> ci_isPreorder item) items)"
  unfolding restored_quantity_def variant_quantity_def
  by (induction items) (auto simp: order_item_of_def)

text \<open>
  C8. Round trip. After a successful placement, the cancellation of the placed order by
  the same user succeeds and every inventory row is what it was before the placement: the
  cancellation gives each variant back exactly what the placement took from it for the
  regular lines, and a variant that no regular line references, in particular one that
  only preorder lines reference, is touched by neither operation.
\<close>

theorem place_then_cancel_restores_stock:
  assumes placed: "create_order s userId req orderNumber = (s1, Inr ord)"
  shows "\<exists>s2. cancel_order s1 userId (o_id ord) = (s2, Inr ())
     \<and> db_inventory s2 = db_inventory s
     \<and> (\<forall>cart v. db_carts s userId = Some cart \<longrightarrow>
          restored_quantity v (o_items ord) = variant_quantity v (regularItems cart)
          \<and> db_inventory s1 v =
              map_option (\<lambda>row. row\<lparr>inv_quantity := inv_quantity row - variant_quantity v (regularItems cart)\<rparr>)
                (db_inventory s v)
          \<and> (v \<notin> set (regular_variant_lines (cart_items cart)) \<longrightarrow>
                db_inventory s1 v = db_inventory s v \<and> db_inventory s2 v = db_inventory s1 v))"
proof -
  from placed obtain cart stock' where cart: "db_carts s userId = Some cart"
    and ok: "verify_stock (db_inventory s) (regularItems cart) = None"
    and dec: "decrement_stock (db_inventory s) (regularItems cart) = Some stock'"
    and ord: "ord = placed_order s userId req orderNumber cart"
    and s1: "s1 = s\<lparr> db_orders := db_orders s @ [ord], db_inventory := stock',
                    db_carts := (db_carts s)(userId \<mapsto> cart\<lparr>cart_items := []\<rparr>) \<rparr>"
    by (auto simp: create_order_Inr)
  have lines: "o_items ord = map order_item_of (cart_items cart)"
    and fields: "o_userId ord = userId" "o_status ord = PENDING"
      "o_id ord = next_id (map o_id (db_orders s))"
    by (simp_all add: ord placed_order_def)
  have after: "stock' v = map_option (\<lambda>row. row\<lparr>inv_quantity := inv_quantity row
        - variant_quantity v (regularItems cart)\<rparr>) (db_inventory s v)" for v
    using decrement_stock_row[OF dec] .
  have undo: "restored_quantity v (o_items ord) = variant_quantity v (regularItems cart)" for v
    by (simp add: lines restored_quantity_order_items regularItems_def)
  have fresh: "\<not> (o_id x = o_id ord \<and> o_userId x = userId)" if "x \<in> set (db_orders s)" for x
    using next_id_fresh[of "o_id x" "map o_id (db_orders s)"] that fields(3) by auto
  have found: "find (\<lambda>x. o_id x = o_id ord \<and> o_userId x = userId) (db_orders s1) = Some ord"
    unfolding s1 using find_append_last[of "db_orders s" "\<lambda>x. o_id x = o_id ord \<and> o_userId x = userId" ord]
      fresh fields(1) by simp
  have "\<forall>item \<in> set (o_items ord). \<not> oi_isPreorder item \<longrightarrow>
      (\<forall>v. oi_productVariantId item = Some v \<longrightarrow> v \<in> dom stock')"
  proof (intro ballI allI impI)
    fix item v
    assume "item \<in> set (o_items ord)" "\<not> oi_isPreorder item" "oi_productVariantId item = Some v"
    then obtain line where "line \<in> set (regularItems cart)" "ci_productVariantId line = Some v"
      by (auto simp: lines order_item_of_def regularItems_def)
    with ok obtain row where "db_inventory s v = Some row"
      by (auto simp: verify_stock_None)
    with after[of v] show "v \<in> dom stock'" by auto
  qed
  then obtain stock2 where res: "restore_stock stock' (o_items ord) = Some stock2"
    using restore_stock_succeeds by blast
  let ?s2 = "s1\<lparr> db_orders := order_update (o_id ord) (\<lambda>ord'. ord'\<lparr>o_status := CANCELLED\<rparr>) (db_orders s1),
                  db_inventory := stock2 \<rparr>"
  have run: "cancel_order s1 userId (o_id ord) = (?s2, Inr ())"
    using found fields(2) res by (simp add: cancel_order_Inr s1)
  have same: "stock2 v = db_inventory s v" for v
    using restore_stock_row[OF res, of v] after[of v] undo[of v]
    by (cases "db_inventory s v") simp_all
  then have inv: "db_inventory ?s2 = db_inventory s" by (simp add: fun_eq_iff)
  have frame: "db_inventory s1 v = db_inventory s v \<and> db_inventory ?s2 v = db_inventory s1 v"
    if "v \<notin> set (regular_variant_lines (cart_items cart))" for v
  proof -
    have "variant_quantity v (regularItems cart) = 0"
      unfolding regularItems_def using that by (rule variant_quantity_absent)
    with after[of v] have "stock' v = db_inventory s v"
      by (cases "db_inventory s v") simp_all
    with same[of v] show ?thesis by (simp add: s1)
  qed
  have "\<forall>cart' v. db_carts s userId = Some cart' \<longrightarrow>
          restored_quantity v (o_items ord) = variant_quantity v (regularItems cart')
          \<and> db_inventory s1 v =
              map_option (\<lambda>row. row\<lparr>inv_quantity := inv_quantity row - variant_quantity v (regularItems cart')\<rparr>)
                (db_inventory s v)
          \<and> (v \<notin> set (regular_variant_lines (cart_items cart')) \<longrightarrow>
                db_inventory s1 v = db_inventory s v \<and> db_inventory ?s2 v = db_inventory s1 v)"
    using cart undo after frame by (auto simp: s1)
  with run inv show ?thesis by (intro exI[of _ ?s2] conjI)
qed


text \<open>
  The theorem at the mixed cart: variant 1 goes from 5 to 3 and back, variant 2 of the
  preorder line stays at 0.
\<close>

theorem place_then_cancel_restores_stock_witness:
  "\<exists>s1 ord s2. create_order mixed_db 1 stripe_request ''ORD-1'' = (s1, Inr ord)
     \<and> cancel_order s1 1 (o_id ord) = (s2, Inr ())
     \<and> map_option inv_quantity (db_inventory s1 1) = Some 3
     \<and> map_option inv_quantity (db_inventory s1 2) = Some 0
     \<and> db_inventory s2 = db_inventory mixed_db"
proof -
  let ?r = "create_order mixed_db 1 stripe_request ''ORD-1''"
  have "\<not> isl (snd ?r)"
    by (simp add: mixed_db_def mixed_cart_def empty_db_def stripe_request_def regular_line_def
        preorder_line_def stock_row_def create_order_def inventory_update_def Let_def)
  then have placed: "?r = (fst ?r, Inr (projr (snd ?r)))"
    by (simp add: prod_eq_iff)
  have cart: "db_carts mixed_db 1 = Some mixed_cart"
    by (simp add: mixed_db_def empty_db_def)
  from place_then_cancel_restores_stock[OF placed] cart
  obtain s2 where run: "cancel_order (fst ?r) 1 (o_id (projr (snd ?r))) = (s2, Inr ())"
    and inv: "db_inventory s2 = db_inventory mixed_db"
    and between: "\<And>v. db_inventory (fst ?r) v =
        map_option (\<lambda>row. row\<lparr>inv_quantity := inv_quantity row - variant_quantity v (regularItems mixed_cart)\<rparr>)
          (db_inventory mixed_db v)"
    by blast
  have "map_option inv_quantity (db_inventory (fst ?r) 1) = Some 3"
    "map_option inv_quantity (db_inventory (fst ?r) 2) = Some 0"
    unfolding between
    by (simp_all add: mixed_db_def mixed_cart_def empty_db_def regular_line_def preorder_line_def
        stock_row_def regularItems_def variant_quantity_def)
  with placed run inv show ?thesis by blast
qed

section \<open>Order status update by an administrator\<close>

lemma update_order_status_found:
  assumes "find (\<lambda>ord. o_id ord = i) (db_orders s) = Some ord"
  shows "update_order_status s i status =
     (s\<lparr>db_orders := order_update i (\<lambda>ord'. ord'\<lparr>o_status := status\<rparr>) (db_orders s)\<rparr>,
      Inr (ord\<lparr>o_status := status\<rparr>))"
  using assms by (simp add: update_order_status_def)

lemma order_update_find_id:
  assumes "find (\<lambda>ord. o_id ord = i) orders = Some ord"
  shows "find (\<lambda>ord. o_id ord = i) (order_update i (\<lambda>ord'. ord'\<lparr>o_status := st\<rparr>) orders)
     = Some (ord\<lparr>o_status := st\<rparr>)"
proof -
  have "find (\<lambda>ord. o_id ord = i) (order_update i (\<lambda>ord'. ord'\<lparr>o_status := st\<rparr>) orders) =
        map_option (\<lambda>ord. if o_id ord = i then ord\<lparr>o_status := st\<rparr> else ord)
          (find (\<lambda>ord. o_id ord = i) orders)"
    unfolding order_update_def by (rule find_map_preserved) simp
  also have "\<dots> = Some (ord\<lparr>o_status := st\<rparr>)"
    using assms by (auto simp: find_Some_iff)
  finally show ?thesis .
qed

lemma order_update_status_only:
  "map (\<lambda>ord. ord\<lparr>o_status := st0\<rparr>) (order_update i (\<lambda>ord'. ord'\<lparr>o_status := st\<rparr>) orders)
   = map (\<lambda>ord. ord\<lparr>o_status := st0\<rparr>) orders"
  unfolding order_update_def by (induction orders) auto

text \<open>
  C3 (amended). The order status update checks no transition: for an order that exists,
  whatever its current status, a request for any of the six statuses is accepted and the
  order's status becomes the requested one; when no order has the id the update throws,
  the answer is the 500 of the handler and the store is unchanged; no request is answered
  with \<open>InvalidStateTransitionError\<close>.
\<close>

theorem update_order_status_accepts_any:
  "(\<forall>ord. find (\<lambda>ord. o_id ord = i) (db_orders s) = Some ord \<longrightarrow>
      (\<exists>s'. update_order_status s i status = (s', Inr (ord\<lparr>o_status := status\<rparr>))
         \<and> find (\<lambda>ord. o_id ord = i) (db_orders s') = Some (ord\<lparr>o_status := status\<rparr>)))
   \<and> (find (\<lambda>ord. o_id ord = i) (db_orders s) = None \<longrightarrow>
        update_order_status s i status = (s, Inl InternalError))
   \<and> snd (update_order_status s i status) \<noteq> Inl InvalidStateTransitionError"
proof (intro conjI allI impI)
  fix ord
  assume found: "find (\<lambda>ord. o_id ord = i) (db_orders s) = Some ord"
  show "\<exists>s'. update_order_status s i status = (s', Inr (ord\<lparr>o_status := status\<rparr>))
         \<and> find (\<lambda>ord. o_id ord = i) (db_orders s') = Some (ord\<lparr>o_status := status\<rparr>)"
    using update_order_status_found[OF found] order_update_find_id[OF found] by simp
next
  assume "find (\<lambda>ord. o_id ord = i) (db_orders s) = None"
  then show "update_order_status s i status = (s, Inl InternalError)"
    by (simp add: update_order_status_def)
next
  show "snd (update_order_status s i status) \<noteq> Inl InvalidStateTransitionError"
    by (simp add: update_order_status_def split: option.splits)
qed

text \<open>The theorem at a shipped order, which is set back to \<open>PENDING\<close>.\<close>

theorem update_order_status_accepts_any_witness:
  "\<exists>s'. update_order_status (order_db SHIPPED) 1 PENDING
       = (s', Inr ((sample_order SHIPPED)\<lparr>o_status := PENDING\<rparr>))
     \<and> map o_status (db_orders s') = [PENDING]"
proof -
  have found: "find (\<lambda>ord. o_id ord = 1) (db_orders (order_db SHIPPED)) = Some (sample_order SHIPPED)"
    by (simp add: order_db_def empty_db_def sample_order_def)
  from update_order_status_accepts_any[of 1 "order_db SHIPPED" PENDING] found
  obtain s' where run: "update_order_status (order_db SHIPPED) 1 PENDING
       = (s', Inr ((sample_order SHIPPED)\<lparr>o_status := PENDING\<rparr>))"
    by blast
  have "map o_status (db_orders (fst (update_order_status (order_db SHIPPED) 1 PENDING))) = [PENDING]"
    by (simp add: update_order_status_def order_db_def empty_db_def sample_order_def order_update_def)
  with run show ?thesis by simp
qed

text \<open>
  C3 as stated fails: the update of a \<open>DELIVERED\<close> order to \<open>CANCELLED\<close> is
  accepted and stored, and so is the jump from \<open>PENDING\<close> to \<open>SHIPPED\<close>.
\<close>

theorem update_order_status_delivered_cancelled_counterexample:
  "snd (update_order_status (order_db DELIVERED) 1 CANCELLED)
     = Inr ((sample_order DELIVERED)\<lparr>o_status := CANCELLED\<rparr>)
   \<and> map o_status (db_orders (order_db DELIVERED)) = [DELIVERED]
   \<and> map o_status (db_orders (fst (update_order_status (order_db DELIVERED) 1 CANCELLED))) = [CANCELLED]
   \<and> map o_status (db_orders (fst (update_order_status (order_db PENDING) 1 SHIPPED))) = [SHIPPED]"
  by (simp add: update_order_status_def order_db_def empty_db_def sample_order_def order_update_def)

text \<open>
  C10. Frame of the order status update. For every order id and every requested status,
  \<open>CANCELLED\<close> included, the update leaves the inventory and the status history as they
  were and changes no table but the orders; there, the orders with another id are as
  before and all orders keep every field but the status.
\<close>

theorem update_order_status_frame:
  "db_inventory (fst (update_order_status s i status)) = db_inventory s
   \<and> db_preorderStatusHistory (fst (update_order_status s i status)) = db_preorderStatusHistory s
   \<and> fst (update_order_status s i status)
       = s\<lparr>db_orders := db_orders (fst (update_order_status s i status))\<rparr>
   \<and> map (\<lambda>ord. ord\<lparr>o_status := PENDING\<rparr>) (db_orders (fst (update_order_status s i status)))
       = map (\<lambda>ord. ord\<lparr>o_status := PENDING\<rparr>) (db_orders s)
   \<and> filter (\<lambda>ord. o_id ord \<noteq> i) (db_orders (fst (update_order_status s i status)))
       = filter (\<lambda>ord. o_id ord \<noteq> i) (db_orders s)"
  by (simp add: update_order_status_def order_update_status_only order_update_others
      split: option.splits)

text \<open>
  The theorem at a pending order: set to \<open>CANCELLED\<close> through this endpoint, variant 1
  keeps its 3 units, where the cancel endpoint would have restored it to 5.
\<close>

theorem update_order_status_frame_witness:
  "map o_status (db_orders (fst (update_order_status (order_db PENDING) 1 CANCELLED))) = [CANCELLED]
   \<and> db_inventory (fst (update_order_status (order_db PENDING) 1 CANCELLED)) 1 = Some (stock_row 3)
   \<and> db_inventory (fst (cancel_order (order_db PENDING) 1 1)) 1 = Some (stock_row 5)
   \<and> db_preorderStatusHistory (fst (update_order_status (order_db PENDING) 1 CANCELLED)) = []"
proof -
  have "db_inventory (fst (update_order_status (order_db PENDING) 1 CANCELLED)) = db_inventory (order_db PENDING)"
    "db_preorderStatusHistory (fst (update_order_status (order_db PENDING) 1 CANCELLED))
       = db_preorderStatusHistory (order_db PENDING)"
    using update_order_status_frame[of "order_db PENDING" 1 CANCELLED] by simp_all
  moreover have "map o_status (db_orders (fst (update_order_status (order_db PENDING) 1 CANCELLED))) = [CANCELLED]"
    by (simp add: update_order_status_def order_db_def empty_db_def sample_order_def order_update_def)
  moreover have "db_inventory (fst (cancel_order (order_db PENDING) 1 1)) 1 = Some (stock_row 5)"
    by (simp add: cancel_order_def order_db_def empty_db_def sample_order_def stock_row_def
        inventory_update_def)
  ultimately show ?thesis by (simp add: order_db_def empty_db_def)
qed

section \<open>Preorder placement\<close>

text \<open>
  The handler from the limit check on, for a request that the earlier rules let through.
\<close>

lemma create_preorder_at_limit:
  assumes "reaches_limit_check s now req product"
  shows "create_preorder s userId now req =
     (case preorder_limit_check (p_preorderLimit product)
             (currentPreorderQuantity (db_preorders s) (pr_productId req)) (pr_quantity req) of
        Some available \<Rightarrow> (s, Inl (PreorderLimitExceededError available))
      | None \<Rightarrow>
          (case find (\<lambda>p. pre_userId p = userId \<and> pre_productId p = pr_productId req
                         \<and> pre_productVariantId p = given_id (pr_productVariantId req)
                         \<and> pre_status p \<in> set [PRE_PENDING, PRE_CONFIRMED])
                  (db_preorders s) of
             Some existing \<Rightarrow> (s, Inl (DuplicatePreorderError (pre_id existing)))
           | None \<Rightarrow>
               if (case given_id (pr_shippingAddressId req) of
                     None \<Rightarrow> False
                   | Some a \<Rightarrow> db_addresses s a \<noteq> Some userId)
               then (s, Inl AddressNotFoundError)
               else
                 (s\<lparr> db_preorders := db_preorders s @ [placed_preorder s userId req product],
                     db_products := (db_products s)(pr_productId req \<mapsto>
                       product\<lparr>p_totalPreorders := p_totalPreorders product + pr_quantity req\<rparr>) \<rparr>,
                  Inr (placed_preorder s userId req product, placed_summary req product))))"
proof -
  have valid: "\<not> (pr_quantity req < 1 \<or> (case pr_depositAmount req of None \<Rightarrow> False | Some d \<Rightarrow> d < 0))"
    using assms by (auto simp: reaches_limit_check_def requested_deposit_def split: option.splits)
  have prod: "db_products s (pr_productId req) = Some product"
    and active: "p_isActive product" "p_allowPreorder product"
    using assms by (simp_all add: reaches_limit_check_def)
  have var: "\<not> (case given_id (pr_productVariantId req) of
                  None \<Rightarrow> False
                | Some v \<Rightarrow> find_variant (db_variants s) (pr_productId req) v = None)"
    using assms by (auto simp: reaches_limit_check_def split: option.splits)
  have win: "\<not> (case p_expectedStockDate product of None \<Rightarrow> False | Some d \<Rightarrow> now > d)"
    using assms by (auto simp: reaches_limit_check_def split: option.splits)
  have dep: "(case pr_depositAmount req of None \<Rightarrow> 0 | Some d \<Rightarrow> d) = requested_deposit req"
    by (simp add: requested_deposit_def)
  show ?thesis
    unfolding create_preorder_def Let_def placed_preorder_def placed_summary_def
    by (simp only: valid prod active var win dep if_False if_True option.case simp_thms)
qed


text \<open>A request that does not reach the limit check is answered by one of the earlier rules.\<close>

lemma create_preorder_early:
  assumes "\<not> (\<exists>product. reaches_limit_check s now req product)"
  shows "create_preorder s userId now req \<in>
     {(s, Inl ValidationError), (s, Inl PreorderNotAllowedError), (s, Inl VariantNotFoundError),
      (s, Inl PreorderWindowClosedError)}"
proof (cases "pr_quantity req < 1 \<or> (case pr_depositAmount req of None \<Rightarrow> False | Some d \<Rightarrow> d < 0)")
  case True
  then show ?thesis unfolding create_preorder_def by (simp only: if_True) simp
next
  case valid: False
  then have v: "1 \<le> pr_quantity req" "0 \<le> requested_deposit req"
    by (auto simp: requested_deposit_def split: option.splits)
  show ?thesis
  proof (cases "db_products s (pr_productId req)")
    case None
    with valid show ?thesis unfolding create_preorder_def Let_def
      by (simp only: if_False option.case) simp
  next
    case (Some product)
    show ?thesis
    proof (cases "p_isActive product \<and> p_allowPreorder product")
      case False
      with valid Some show ?thesis unfolding create_preorder_def Let_def
        by (simp only: if_False if_True option.case simp_thms) simp
    next
      case active: True
      show ?thesis
      proof (cases "case given_id (pr_productVariantId req) of
                  None \<Rightarrow> False
                | Some v \<Rightarrow> find_variant (db_variants s) (pr_productId req) v = None")
        case True
        with valid Some active show ?thesis unfolding create_preorder_def Let_def
          by (simp only: if_False if_True option.case simp_thms) simp
      next
        case var: False
        show ?thesis
        proof (cases "case p_expectedStockDate product of None \<Rightarrow> False | Some d \<Rightarrow> now > d")
          case True
          with valid Some active var show ?thesis unfolding create_preorder_def Let_def
            by (simp only: if_False if_True option.case simp_thms) simp
        next
          case False
          with v Some active var have "reaches_limit_check s now req product"
            by (auto simp: reaches_limit_check_def split: option.splits)
          with assms show ?thesis by blast
        qed
      qed
    qed
  qed
qed

lemma create_preorder_Inl:
  assumes "create_preorder s userId now req = (s', Inl e)"
  shows "s' = s"
proof (cases "\<exists>product. reaches_limit_check s now req product")
  case True
  then obtain product where "reaches_limit_check s now req product" ..
  from create_preorder_at_limit[OF this, of userId] assms show ?thesis
    by (auto split: option.splits if_splits)
next
  case False
  from create_preorder_early[OF this, of userId] assms show ?thesis by auto
qed

lemma create_preorder_Inr:
  assumes "create_preorder s userId now req = (s', Inr (p, summary))"
  shows "\<exists>product. reaches_limit_check s now req product
     \<and> preorder_limit_check (p_preorderLimit product)
          (currentPreorderQuantity (db_preorders s) (pr_productId req)) (pr_quantity req) = None
     \<and> p = placed_preorder s userId req product
     \<and> summary = placed_summary req product
     \<and> s' = s\<lparr> db_preorders := db_preorders s @ [placed_preorder s userId req product],
                db_products := (db_products s)(pr_productId req \<mapsto>
                  product\<lparr>p_totalPreorders := p_totalPreorders product + pr_quantity req\<rparr>) \<rparr>"
proof (cases "\<exists>product. reaches_limit_check s now req product")
  case True
  then obtain product where r: "reaches_limit_check s now req product" ..
  from create_preorder_at_limit[OF r, of userId] assms have
    "preorder_limit_check (p_preorderLimit product)
          (currentPreorderQuantity (db_preorders s) (pr_productId req)) (pr_quantity req) = None
     \<and> p = placed_preorder s userId req product
     \<and> summary = placed_summary req product
     \<and> s' = s\<lparr> db_preorders := db_preorders s @ [placed_preorder s userId req product],
                db_products := (db_products s)(pr_productId req \<mapsto>
                  product\<lparr>p_totalPreorders := p_totalPreorders product + pr_quantity req\<rparr>) \<rparr>"
    by (auto split: option.splits if_splits)
  with r show ?thesis by blast
next
  case False
  from create_preorder_early[OF this, of userId] assms show ?thesis by auto
qed






text \<open>
  C9. Frame of preorder placement. A successful placement leaves every inventory row as
  it was; the store afterwards is the store before with one preorder row more, the created
  one, and with \<open>totalPreorders\<close> of the product raised by the requested quantity, both
  or neither: a placement that fails leaves the store unchanged.
\<close>

theorem create_preorder_frame:
  "(\<forall>s' p summary. create_preorder s userId now req = (s', Inr (p, summary)) \<longrightarrow>
       db_inventory s' = db_inventory s
     \<and> (\<exists>product. db_products s (pr_productId req) = Some product
          \<and> s' = s\<lparr> db_preorders := db_preorders s @ [p],
                     db_products := (db_products s)(pr_productId req \<mapsto>
                       product\<lparr>p_totalPreorders := p_totalPreorders product + pr_quantity req\<rparr>) \<rparr>))
   \<and> (\<forall>s' e. create_preorder s userId now req = (s', Inl e) \<longrightarrow> s' = s)"
proof (intro conjI allI impI)
  fix s' p summary
  assume run: "create_preorder s userId now req = (s', Inr (p, summary))"
  from create_preorder_Inr[OF run] obtain product
    where r: "reaches_limit_check s now req product"
      and p: "p = placed_preorder s userId req product"
      and s': "s' = s\<lparr> db_preorders := db_preorders s @ [placed_preorder s userId req product],
                db_products := (db_products s)(pr_productId req \<mapsto>
                  product\<lparr>p_totalPreorders := p_totalPreorders product + pr_quantity req\<rparr>) \<rparr>"
    by blast
  from s' show "db_inventory s' = db_inventory s" by simp
  from r have "db_products s (pr_productId req) = Some product"
    by (simp add: reaches_limit_check_def)
  with s' p show "\<exists>product. db_products s (pr_productId req) = Some product
          \<and> s' = s\<lparr> db_preorders := db_preorders s @ [p],
                     db_products := (db_products s)(pr_productId req \<mapsto>
                       product\<lparr>p_totalPreorders := p_totalPreorders product + pr_quantity req\<rparr>) \<rparr>"
    by blast
next
  fix s' e
  assume "create_preorder s userId now req = (s', Inl e)"
  then show "s' = s" by (rule create_preorder_Inl)
qed

text \<open>
  The theorem at the scenario: after the placement of 2 units variant 1 still has its 5
  units, there is one preorder row and the product counts 2 preordered units.
\<close>

theorem create_preorder_frame_witness:
  "\<not> isl (snd (create_preorder (preorder_db (Some 100) []) 2 0 (preorder_of 2 (Some 10))))
   \<and> db_inventory (fst (create_preorder (preorder_db (Some 100) []) 2 0 (preorder_of 2 (Some 10)))) 1
       = Some (stock_row 5)
   \<and> map pre_quantity
        (db_preorders (fst (create_preorder (preorder_db (Some 100) []) 2 0 (preorder_of 2 (Some 10)))))
       = [2]
   \<and> map_option p_totalPreorders
        (db_products (fst (create_preorder (preorder_db (Some 100) []) 2 0 (preorder_of 2 (Some 10)))) 1)
       = Some 2"
proof -
  let ?db = "preorder_db (Some 100) []"
  let ?r = "create_preorder ?db 2 0 (preorder_of 2 (Some 10))"
  have ok: "\<not> isl (snd ?r)"
    by (simp add: create_preorder_def preorder_db_def preorder_of_def preorder_product_def
        empty_db_def given_id_def preorder_limit_check_def currentPreorderQuantity_def Let_def)
  then have run: "?r = (fst ?r, Inr (fst (projr (snd ?r)), snd (projr (snd ?r))))"
    by (simp add: prod_eq_iff)
  have prod: "db_products ?db (pr_productId (preorder_of 2 (Some 10))) = Some (preorder_product (Some 100))"
    by (simp add: preorder_db_def preorder_of_def empty_db_def)
  note frame = create_preorder_frame[of ?db 2 0 "preorder_of 2 (Some 10)", THEN conjunct1,
      rule_format, OF run]
  from frame have inv: "db_inventory (fst ?r) = db_inventory ?db" by blast
  from frame prod
  have upd: "fst ?r = ?db\<lparr> db_preorders := db_preorders ?db @ [fst (projr (snd ?r))],
        db_products := (db_products ?db)(pr_productId (preorder_of 2 (Some 10)) \<mapsto>
          (preorder_product (Some 100))\<lparr>p_totalPreorders := p_totalPreorders (preorder_product (Some 100))
              + pr_quantity (preorder_of 2 (Some 10))\<rparr>) \<rparr>"
    by auto
  have q: "pre_quantity (fst (projr (snd ?r))) = 2"
    by (simp add: create_preorder_def preorder_db_def preorder_of_def preorder_product_def
        empty_db_def given_id_def preorder_limit_check_def currentPreorderQuantity_def Let_def)
  have none: "db_preorders ?db = []"
    by (simp add: preorder_db_def empty_db_def)
  have "db_inventory (fst ?r) 1 = Some (stock_row 5)"
    unfolding inv by (simp add: preorder_db_def empty_db_def)
  moreover have "map pre_quantity (db_preorders (fst ?r)) = [2]"
    by (subst upd) (simp add: q none)
  moreover have "map_option p_totalPreorders (db_products (fst ?r) 1) = Some 2"
    by (subst upd) (simp add: preorder_of_def preorder_product_def)
  ultimately show ?thesis using ok by simp
qed

section \<open>Preorder status update by an administrator\<close>

text \<open>The table of the handler holds the pairs of the specification's table, and no other.\<close>

lemma validTransitions_table:
  "t \<in> set (validTransitions f) \<longleftrightarrow> (f, t) \<in> set transition_table"
  unfolding transition_table_def by (cases f; cases t; simp)

lemma update_preorder_status_found:
  assumes tracking: "case sr_trackingNumber req of None \<Rightarrow> True | Some t \<Rightarrow> 3 \<le> length t"
    and short: "case sr_notes req of None \<Rightarrow> True | Some n \<Rightarrow> length n \<le> 500"
    and found: "find (\<lambda>p. pre_id p = i) (db_preorders s) = Some cur"
  shows "update_preorder_status s actor now i req =
     (if sr_status req \<notin> set (validTransitions (pre_status cur))
      then (s, Inl InvalidStateTransitionError)
      else
        (s\<lparr> db_preorders :=
              preorder_update i (apply_status_update actor now req) (db_preorders s),
            db_preorderStatusHistory := db_preorderStatusHistory s @
              [\<lparr> h_preorderId = i,
                 h_fromStatus = pre_status cur,
                 h_toStatus = sr_status req,
                 h_changedBy = actor,
                 h_notes = history_notes req (pre_status cur),
                 h_timestamp = now \<rparr>] \<rparr>,
         Inr (apply_status_update actor now req cur,
              \<lparr> sc_from = pre_status cur,
                sc_to = sr_status req,
                sc_updatedBy = actor,
                sc_timestamp = now \<rparr>)))"
proof -
  have valid: "\<not> ((case sr_trackingNumber req of None \<Rightarrow> False | Some t \<Rightarrow> length t < 3)
         \<or> (case sr_notes req of None \<Rightarrow> False | Some n \<Rightarrow> length n > 500))"
    using tracking short by (auto split: option.splits)
  show ?thesis
    unfolding update_preorder_status_def
    by (simp only: valid found if_False option.case)
qed

lemma preorder_update_find:
  assumes "find (\<lambda>p. pre_id p = i) preorders = Some cur" "\<And>p. pre_id (f p) = pre_id p"
  shows "find (\<lambda>p. pre_id p = i) (preorder_update i f preorders) = Some (f cur)"
proof -
  have "find (\<lambda>p. pre_id p = i) (preorder_update i f preorders) =
        map_option (\<lambda>p. if pre_id p = i then f p else p) (find (\<lambda>p. pre_id p = i) preorders)"
    unfolding preorder_update_def by (rule find_map_preserved) (simp add: assms(2))
  also have "\<dots> = Some (f cur)"
    using assms(1) by (auto simp: find_Some_iff)
  finally show ?thesis .
qed

text \<open>
  C6. Preorder status machine with history. For a request that passes the validators, on
  a preorder that exists and is in status \<open>F\<close>, the update to status \<open>T\<close> is accepted
  exactly when \<open>(F, T)\<close> is in the table \<open>PENDING \<rightarrow> CONFIRMED, CANCELLED, EXPIRED\<close>;
  \<open>CONFIRMED \<rightarrow> READY, CANCELLED\<close>; \<open>READY \<rightarrow> SHIPPED, CANCELLED\<close>;
  \<open>SHIPPED \<rightarrow> DELIVERED\<close>. Any other request is answered with
  \<open>InvalidStateTransitionError\<close> and changes nothing; in particular \<open>DELIVERED\<close>,
  \<open>CANCELLED\<close> and \<open>EXPIRED\<close> have no way out. Every accepted update appends one
  history record with the preorder's id, the status before, the status after, the acting
  user and the time, and leaves the preorder in the requested status.
\<close>

theorem update_preorder_status_transitions:
  assumes tracking: "case sr_trackingNumber req of None \<Rightarrow> True | Some t \<Rightarrow> 3 \<le> length t"
    and short: "case sr_notes req of None \<Rightarrow> True | Some n \<Rightarrow> length n \<le> 500"
    and found: "find (\<lambda>p. pre_id p = i) (db_preorders s) = Some cur"
  shows "((\<exists>s' r. update_preorder_status s actor now i req = (s', Inr r))
            \<longleftrightarrow> (pre_status cur, sr_status req) \<in> set transition_table)
     \<and> ((pre_status cur, sr_status req) \<notin> set transition_table \<longrightarrow>
          update_preorder_status s actor now i req = (s, Inl InvalidStateTransitionError))
     \<and> (pre_status cur \<in> {PRE_DELIVERED, PRE_CANCELLED, PRE_EXPIRED} \<longrightarrow>
          update_preorder_status s actor now i req = (s, Inl InvalidStateTransitionError))
     \<and> (\<forall>s' r. update_preorder_status s actor now i req = (s', Inr r) \<longrightarrow>
          (\<exists>h. db_preorderStatusHistory s' = db_preorderStatusHistory s @ [h]
             \<and> h_preorderId h = i
             \<and> h_fromStatus h = pre_status cur
             \<and> h_toStatus h = sr_status req
             \<and> h_changedBy h = actor
             \<and> h_timestamp h = now)
          \<and> (\<exists>p'. find (\<lambda>p. pre_id p = i) (db_preorders s') = Some p'
                \<and> pre_status p' = sr_status req \<and> pre_updatedBy p' = Some actor))"
proof -
  note run = update_preorder_status_found[OF tracking short found, of actor now]
  have table: "sr_status req \<in> set (validTransitions (pre_status cur))
      \<longleftrightarrow> (pre_status cur, sr_status req) \<in> set transition_table"
    by (rule validTransitions_table)
  have accepted: "(\<exists>s' r. update_preorder_status s actor now i req = (s', Inr r))
      \<longleftrightarrow> (pre_status cur, sr_status req) \<in> set transition_table"
    unfolding run table[symmetric] by simp
  have rejected: "(pre_status cur, sr_status req) \<notin> set transition_table \<longrightarrow>
      update_preorder_status s actor now i req = (s, Inl InvalidStateTransitionError)"
    unfolding run table[symmetric] by simp
  have terminal: "pre_status cur \<in> {PRE_DELIVERED, PRE_CANCELLED, PRE_EXPIRED} \<longrightarrow>
      update_preorder_status s actor now i req = (s, Inl InvalidStateTransitionError)"
    unfolding run by auto
  have effect: "\<forall>s' r. update_preorder_status s actor now i req = (s', Inr r) \<longrightarrow>
          (\<exists>h. db_preorderStatusHistory s' = db_preorderStatusHistory s @ [h]
             \<and> h_preorderId h = i
             \<and> h_fromStatus h = pre_status cur
             \<and> h_toStatus h = sr_status req
             \<and> h_changedBy h = actor
             \<and> h_timestamp h = now)
          \<and> (\<exists>p'. find (\<lambda>p. pre_id p = i) (db_preorders s') = Some p'
                \<and> pre_status p' = sr_status req \<and> pre_updatedBy p' = Some actor)"
  proof (intro allI impI)
    fix s' r
    assume ok: "update_preorder_status s actor now i req = (s', Inr r)"
    with run have s': "s' = s\<lparr> db_preorders :=
              preorder_update i (apply_status_update actor now req) (db_preorders s),
            db_preorderStatusHistory := db_preorderStatusHistory s @
              [\<lparr> h_preorderId = i,
                 h_fromStatus = pre_status cur,
                 h_toStatus = sr_status req,
                 h_changedBy = actor,
                 h_notes = history_notes req (pre_status cur),
                 h_timestamp = now \<rparr>] \<rparr>"
      by (auto split: if_splits)
    have "find (\<lambda>p. pre_id p = i) (db_preorders s') = Some (apply_status_update actor now req cur)"
      unfolding s' using preorder_update_find[OF found, of "apply_status_update actor now req"]
      by (simp add: apply_status_update_def)
    moreover have "pre_status (apply_status_update actor now req cur) = sr_status req"
      "pre_updatedBy (apply_status_update actor now req cur) = Some actor"
      by (simp_all add: apply_status_update_def)
    ultimately have stored: "\<exists>p'. find (\<lambda>p. pre_id p = i) (db_preorders s') = Some p'
                \<and> pre_status p' = sr_status req \<and> pre_updatedBy p' = Some actor"
      by blast
    have "\<exists>h. db_preorderStatusHistory s' = db_preorderStatusHistory s @ [h]
             \<and> h_preorderId h = i
             \<and> h_fromStatus h = pre_status cur
             \<and> h_toStatus h = sr_status req
             \<and> h_changedBy h = actor
             \<and> h_timestamp h = now"
      unfolding s' by simp
    with stored show "(\<exists>h. db_preorderStatusHistory s' = db_preorderStatusHistory s @ [h]
             \<and> h_preorderId h = i
             \<and> h_fromStatus h = pre_status cur
             \<and> h_toStatus h = sr_status req
             \<and> h_changedBy h = actor
             \<and> h_timestamp h = now)
          \<and> (\<exists>p'. find (\<lambda>p. pre_id p = i) (db_preorders s') = Some p'
                \<and> pre_status p' = sr_status req \<and> pre_updatedBy p' = Some actor)"
      by blast
  qed
  from accepted rejected terminal effect show ?thesis by blast
qed

text \<open>
  The theorem at a pending preorder: the update to \<open>CONFIRMED\<close> by user 9 at time 77 is
  accepted and recorded; the update to \<open>READY\<close> is rejected.
\<close>

theorem update_preorder_status_transitions_witness:
  "(\<exists>s' r. update_preorder_status (preorder_db None [active_preorder 1 5 40 PRE_PENDING]) 9 77 1
              (status_request_of PRE_CONFIRMED) = (s', Inr r)
      \<and> map pre_status (db_preorders s') = [PRE_CONFIRMED]
      \<and> map (\<lambda>h. (h_fromStatus h, h_toStatus h, h_changedBy h, h_timestamp h))
           (db_preorderStatusHistory s') = [(PRE_PENDING, PRE_CONFIRMED, 9, 77)])
   \<and> update_preorder_status (preorder_db None [active_preorder 1 5 40 PRE_PENDING]) 9 77 1
        (status_request_of PRE_READY)
       = (preorder_db None [active_preorder 1 5 40 PRE_PENDING], Inl InvalidStateTransitionError)"
proof -
  let ?db = "preorder_db None [active_preorder 1 5 40 PRE_PENDING]"
  have tracking: "case sr_trackingNumber (status_request_of st) of None \<Rightarrow> True | Some t \<Rightarrow> 3 \<le> length t"
    and short: "case sr_notes (status_request_of st) of None \<Rightarrow> True | Some n \<Rightarrow> length n \<le> 500" for st
    by (simp_all add: status_request_of_def)
  have found: "find (\<lambda>p. pre_id p = 1) (db_preorders ?db) = Some (active_preorder 1 5 40 PRE_PENDING)"
    by (simp add: preorder_db_def empty_db_def active_preorder_def)
  have cur: "pre_status (active_preorder j u n st) = st" for j u n st
    by (simp add: active_preorder_def)
  have hist: "db_preorderStatusHistory ?db = []"
    by (simp add: preorder_db_def empty_db_def)
  note confirm = update_preorder_status_transitions[where req = "status_request_of PRE_CONFIRMED"
      and actor = 9 and now = 77, OF tracking short found]
  note ready = update_preorder_status_transitions[where req = "status_request_of PRE_READY"
      and actor = 9 and now = 77, OF tracking short found]
  have "(pre_status (active_preorder 1 5 40 PRE_PENDING), sr_status (status_request_of PRE_CONFIRMED))
      \<in> set transition_table"
    by (simp add: cur status_request_of_def transition_table_def)
  with confirm obtain s' r where run: "update_preorder_status ?db 9 77 1 (status_request_of PRE_CONFIRMED) = (s', Inr r)"
    by blast
  with confirm obtain h where h: "db_preorderStatusHistory s' = db_preorderStatusHistory ?db @ [h]"
    "h_fromStatus h = PRE_PENDING" "h_toStatus h = PRE_CONFIRMED" "h_changedBy h = 9" "h_timestamp h = 77"
    unfolding cur by (auto simp: status_request_of_def)
  have "map pre_status (db_preorders (fst (update_preorder_status ?db 9 77 1 (status_request_of PRE_CONFIRMED))))
      = [PRE_CONFIRMED]"
    by (simp add: update_preorder_status_def preorder_db_def empty_db_def active_preorder_def
        status_request_of_def preorder_update_def apply_status_update_def)
  with run have st: "map pre_status (db_preorders s') = [PRE_CONFIRMED]" by simp
  have "(pre_status (active_preorder 1 5 40 PRE_PENDING), sr_status (status_request_of PRE_READY))
      \<notin> set transition_table"
    by (simp add: cur status_request_of_def transition_table_def)
  with ready have "update_preorder_status ?db 9 77 1 (status_request_of PRE_READY)
       = (?db, Inl InvalidStateTransitionError)"
    by blast
  with run st h hist show ?thesis by (intro conjI exI[of _ s'] exI[of _ r]) simp_all
qed

end
